theory Spec2Isabelle
  imports Main "HOL-Library.Word"
begin

section \<open>Bytes, hexadecimal text and the JavaScript string primitives used by the code\<close>

text \<open>
  A \<open>Buffer\<close> or \<open>Uint8Array\<close> is a list of bytes, a JavaScript string is a \<open>string\<close>.
  A thrown \<open>Error\<close> is the value \<open>Inl (Error message)\<close> with the message of the source;
  \<open>TypeError\<close> is what the runtime or a library throws when a value is \<open>undefined\<close>
  or of the wrong type; \<open>Rejected\<close> is the failure of an awaited call of an external service.
\<close>

type_synonym byte = "8 word"

datatype error = Error string | TypeError string | Rejected string

definition hex_digit :: "nat \<Rightarrow> char" where
  "hex_digit n = ''0123456789abcdef'' ! n"

definition byte_hex :: "byte \<Rightarrow> string" where
  "byte_hex b = [hex_digit (unat b div 16), hex_digit (unat b mod 16)]"

text \<open>\<open>buf.toString('hex')\<close>: two lower-case hexadecimal digits per byte.\<close>

definition Buffer_toString_hex :: "byte list \<Rightarrow> string" where
  "Buffer_toString_hex bs = concat (map byte_hex bs)"

text \<open>The value of one hexadecimal digit, of either case; \<open>None\<close> for any other character.\<close>

definition unhex :: "char \<Rightarrow> nat option" where
  "unhex c =
     (let n = (of_char c :: nat) in
      if 48 \<le> n \<and> n \<le> 57 then Some (n - 48)
      else if 97 \<le> n \<and> n \<le> 102 then Some (n - 87)
      else if 65 \<le> n \<and> n \<le> 70 then Some (n - 55)
      else None)"

text \<open>
  \<open>Buffer.from(text, 'hex')\<close> of Node.js: pairs of hexadecimal digits are decoded from the
  left; decoding stops at the first pair that is not two hexadecimal digits, and a single
  trailing digit is dropped (\<open>Buffer.from('1ag123', 'hex')\<close> is \<open>1a\<close>,
  \<open>Buffer.from('1a7', 'hex')\<close> is \<open>1a\<close>). It never throws.
\<close>

fun Buffer_from_hex :: "string \<Rightarrow> byte list" where
  "Buffer_from_hex (a # b # rest) =
     (case (unhex a, unhex b) of
        (Some x, Some y) \<Rightarrow> of_nat (16 * x + y) # Buffer_from_hex rest
      | _ \<Rightarrow> [])"
| "Buffer_from_hex _ = []"

text \<open>\<open>s.padStart(n, c)\<close> for a one-character pad string: a string already of length
  \<open>n\<close> or more is returned as it is.\<close>

definition padStart :: "nat \<Rightarrow> char \<Rightarrow> string \<Rightarrow> string" where
  "padStart n c s = replicate (n - length s) c @ s"

definition startsWith :: "string \<Rightarrow> string \<Rightarrow> bool" where
  "startsWith p s = (take (length p) s = p)"

text \<open>\<open>s.slice(-1)\<close>: the last character, or the empty string when \<open>s\<close> is empty.\<close>

definition slice_last :: "string \<Rightarrow> string" where
  "slice_last s = drop (length s - 1) s"

text \<open>\<open>s.split(c)\<close> for a one-character separator: never the empty array.\<close>

fun split_on :: "char \<Rightarrow> string \<Rightarrow> string list" where
  "split_on c [] = [[]]"
| "split_on c (x # xs) =
     (if x = c then [] # split_on c xs
      else (case split_on c xs of
              p # ps \<Rightarrow> (x # p) # ps
            | [] \<Rightarrow> [[x]]))"

text \<open>\<open>xs[i]\<close> of a JavaScript array: \<open>None\<close> stands for \<open>undefined\<close>.\<close>

definition array_at :: "'a list \<Rightarrow> nat \<Rightarrow> 'a option" where
  "array_at xs i = (if i < length xs then Some (xs ! i) else None)"

text \<open>
  \<open>parseInt(s, 16)\<close> on a string of at most one character, which is all the code passes
  to it: the digit's value, or \<open>None\<close> for \<open>NaN\<close>.
\<close>

definition parseInt16 :: "string \<Rightarrow> nat option" where
  "parseInt16 s = (case s of [c] \<Rightarrow> unhex c | _ \<Rightarrow> None)"

section \<open>Base58 decoding (\<open>base_decode\<close> of near-api-js, which is \<open>bs58.decode\<close>)\<close>

definition base58_alphabet :: string where
  "base58_alphabet = ''123456789ABCDEFGHJKLMNPQRSTUVWXYZabcdefghijkmnopqrstuvwxyz''"

fun index_of :: "'a \<Rightarrow> 'a list \<Rightarrow> nat option" where
  "index_of c [] = None"
| "index_of c (x # xs) =
     (if x = c then Some 0 else map_option Suc (index_of c xs))"

fun base58_value :: "nat \<Rightarrow> string \<Rightarrow> nat option" where
  "base58_value acc [] = Some acc"
| "base58_value acc (c # cs) =
     (case index_of c base58_alphabet of
        None \<Rightarrow> None
      | Some d \<Rightarrow> base58_value (58 * acc + d) cs)"

text \<open>The big-endian bytes of a number, without leading zero bytes (none for 0).\<close>

fun bytes_be :: "nat \<Rightarrow> byte list" where
  "bytes_be n = (if n = 0 then [] else bytes_be (n div 256) @ [of_nat (n mod 256)])"

declare bytes_be.simps [simp del]

text \<open>
  Each leading \<open>1\<close> of the text is one zero byte; the rest is a number in base 58, most
  significant digit first. The argument is \<open>None\<close> when the caller passes \<open>undefined\<close>.
\<close>

definition base_decode :: "string option \<Rightarrow> error + byte list" where
  "base_decode src =
     (case src of
        None \<Rightarrow> Inl (TypeError ''Expected String'')
      | Some s \<Rightarrow>
          (case base58_value 0 (dropWhile (\<lambda>c. c = CHR ''1'') s) of
             None \<Rightarrow> Inl (Error ''Non-base58 character'')
           | Some n \<Rightarrow>
               Inr (replicate (length (takeWhile (\<lambda>c. c = CHR ''1'') s)) 0 @ bytes_be n)))"

section \<open>\<open>src/signature/utils.ts\<close>\<close>

record najToPubKey_options =
  compress :: bool

definition najToPubKey :: "string \<Rightarrow> najToPubKey_options \<Rightarrow> error + string" where
  "najToPubKey najPubKey options =
     (case base_decode (array_at (split_on CHR '':'' najPubKey) 1) of
        Inl e \<Rightarrow> Inl e
      | Inr decoded \<Rightarrow>
          (let uncompressedPubKey = ''04'' @ Buffer_toString_hex decoded in
           if \<not> compress options then Inr uncompressedPubKey
           else
             (let pubKeyHex =
                    (if startsWith ''04'' uncompressedPubKey
                     then drop 2 uncompressedPubKey
                     else uncompressedPubKey)
              in
              if length pubKeyHex \<noteq> 128
              then Inl (Error ''Invalid uncompressed public key length'')
              else
                (let x = take 64 pubKeyHex;
                     y = drop 64 pubKeyHex;
                     isEven = (case parseInt16 (slice_last y) of
                                 Some d \<Rightarrow> d mod 2 = 0
                               | None \<Rightarrow> False);
                     prefix = (if isEven then ''02'' else ''03'')
                 in Inr (prefix @ x)))))"

text \<open>
  The signature types of \<open>src/signature/types.ts\<close>. The fields \<open>r\<close>, \<open>s\<close>, \<open>v\<close> of
  \<open>RSVSignature\<close> and \<open>big_r\<close>, \<open>s\<close> of \<open>MPCSignature\<close> carry a prefix here, so that
  they do not take the names of variables.
\<close>

record big_r_t =
  affine_point :: string

record s_t =
  scalar :: string

record MPCSignature =
  mpc_big_r :: big_r_t
  mpc_s :: s_t
  recovery_id :: int

record RSVSignature =
  rsv_r :: string
  rsv_s :: string
  rsv_v :: int

definition toRSV :: "MPCSignature \<Rightarrow> RSVSignature" where
  "toRSV signature =
     \<lparr> rsv_r = drop 2 (affine_point (mpc_big_r signature)),
       rsv_s = scalar (mpc_s signature),
       rsv_v = recovery_id signature \<rparr>"

section \<open>\<open>Bitcoin.parseRSVSignature\<close>\<close>

definition parseRSVSignature :: "RSVSignature \<Rightarrow> error + byte list" where
  "parseRSVSignature signature =
     (let r = padStart 64 CHR ''0'' (rsv_r signature);
          s = padStart 64 CHR ''0'' (rsv_s signature);
          rawSignature = Buffer_from_hex (r @ s)
      in
      if length rawSignature \<noteq> 64
      then Inl (Error ''Invalid signature length.'')
      else Inr rawSignature)"

section \<open>\<open>src/chains/EVM/EVM.ts\<close>\<close>

text \<open>
  A transaction request and an unsigned transaction are JavaScript objects: finite maps
  from field names to values. Object spread \<open>{...a, ...b}\<close> is \<open>a ++ b\<close>, where the
  fields of \<open>b\<close> win.
\<close>

record Signature =
  sig_r :: string
  sig_s :: string
  sig_v :: int

datatype jsval = JString string | JNumber int | JBigInt int | JSignature Signature

type_synonym obj = "string \<rightharpoonup> jsval"

text \<open>The argument of \<open>ethers.Signature.from\<close> as \<open>parseSignature\<close> builds it.\<close>

record SignatureLike =
  like_r :: string
  like_s :: string
  like_v :: int

text \<open>
  What the class reaches outside the repository: the JSON-RPC provider, the fee
  estimator of \<open>./utils\<close>, the signer contract and the ethers library. An awaited call
  that rejects, or a library call that throws, returns \<open>Inl\<close>. \<open>keccak\<close> is the
  Keccak-256 hash function on bytes.
\<close>

record evm_env =
  provider_url :: string
  network_chainId :: int
  fetchEVMFeeProperties :: "string \<Rightarrow> obj \<Rightarrow> error + obj"
  getTransactionCount :: "jsval option \<Rightarrow> string \<Rightarrow> error + int"
  getDerivedPublicKey :: "string \<Rightarrow> string \<Rightarrow> error + string option"
  keccak :: "byte list \<Rightarrow> byte list"
  Transaction_unsignedSerialized :: "obj \<Rightarrow> error + string"
  Transaction_serialized :: "obj \<Rightarrow> error + string"
  Signature_from :: "SignatureLike \<Rightarrow> error + Signature"

text \<open>
  \<open>BytesLike\<close> of ethers: a \<open>0x\<close>-prefixed hexadecimal string or a byte array.
  \<open>ethers.getBytes\<close> accepts a string that matches \<open>/^0x([0-9a-f][0-9a-f])*$/i\<close> and
  throws on any other; \<open>ethers.hexlify\<close> writes \<open>0x\<close> and two digits per byte;
  \<open>ethers.keccak256\<close> is \<open>hexlify (keccak (getBytes data))\<close>.
\<close>

datatype BytesLike = HexString string | Bytes "byte list"

definition hex_string :: "string \<Rightarrow> bool" where
  "hex_string s = list_all (\<lambda>c. unhex c \<noteq> None) s"

definition getBytes :: "BytesLike \<Rightarrow> error + byte list" where
  "getBytes v =
     (case v of
        Bytes bs \<Rightarrow> Inr bs
      | HexString s \<Rightarrow>
          if startsWith ''0x'' s \<and> even (length s) \<and> hex_string (drop 2 s)
          then Inr (Buffer_from_hex (drop 2 s))
          else Inl (TypeError ''invalid BytesLike value''))"

definition hexlify :: "byte list \<Rightarrow> string" where
  "hexlify bs = ''0x'' @ Buffer_toString_hex bs"

definition keccak256 :: "evm_env \<Rightarrow> BytesLike \<Rightarrow> error + string" where
  "keccak256 env data =
     (case getBytes data of
        Inl e \<Rightarrow> Inl e
      | Inr bs \<Rightarrow> Inr (hexlify (keccak env bs)))"

definition attachGasAndNonce :: "evm_env \<Rightarrow> obj \<Rightarrow> error + obj" where
  "attachGasAndNonce env transaction =
     (case fetchEVMFeeProperties env (provider_url env) transaction of
        Inl e \<Rightarrow> Inl e
      | Inr fees \<Rightarrow>
          (case getTransactionCount env (transaction ''from'') ''latest'' of
             Inl e \<Rightarrow> Inl e
           | Inr nonce \<Rightarrow>
               (let rest = transaction(''from'' := None) in
                Inr (fees
                     ++ [''chainId'' \<mapsto> JBigInt (network_chainId env),
                         ''nonce'' \<mapsto> JNumber nonce,
                         ''type'' \<mapsto> JNumber 2]
                     ++ rest))))"

definition parseSignature :: "evm_env \<Rightarrow> RSVSignature \<Rightarrow> error + Signature" where
  "parseSignature env signature =
     Signature_from env
       \<lparr> like_r = ''0x'' @ rsv_r signature,
         like_s = ''0x'' @ rsv_s signature,
         like_v = rsv_v signature \<rparr>"

record derived =
  address :: string
  publicKey :: string

definition deriveAddressAndPublicKey ::
  "evm_env \<Rightarrow> string \<Rightarrow> string \<Rightarrow> error + derived" where
  "deriveAddressAndPublicKey env signerId path =
     (case getDerivedPublicKey env path signerId of
        Inl e \<Rightarrow> Inl e
      | Inr None \<Rightarrow> Inl (Error ''Failed to get derived public key'')
      | Inr (Some uncompressedPubKey) \<Rightarrow>
          if uncompressedPubKey = []
          then Inl (Error ''Failed to get derived public key'')
          else
            (let publicKeyNoPrefix =
                   (if startsWith ''04'' uncompressedPubKey
                    then drop 2 uncompressedPubKey
                    else uncompressedPubKey)
             in
             case keccak256 env (Bytes (Buffer_from_hex publicKeyNoPrefix)) of
               Inl e \<Rightarrow> Inl e
             | Inr hash \<Rightarrow>
                 Inr \<lparr> address = ''0x'' @ drop (length hash - 40) hash,
                       publicKey = uncompressedPubKey \<rparr>))"

record MPCPayload =
  index :: nat
  payload :: "byte list"

record payload_and_transaction =
  transaction :: obj
  mpcPayloads :: "MPCPayload list"

definition getMPCPayloadAndTransaction ::
  "evm_env \<Rightarrow> obj \<Rightarrow> error + payload_and_transaction" where
  "getMPCPayloadAndTransaction env transactionRequest =
     (case attachGasAndNonce env transactionRequest of
        Inl e \<Rightarrow> Inl e
      | Inr tx \<Rightarrow>
          (case Transaction_unsignedSerialized env tx of
             Inl e \<Rightarrow> Inl e
           | Inr txSerialized \<Rightarrow>
               (case keccak256 env (HexString txSerialized) of
                  Inl e \<Rightarrow> Inl e
                | Inr transactionHash \<Rightarrow>
                    (case getBytes (HexString transactionHash) of
                       Inl e \<Rightarrow> Inl e
                     | Inr txHash \<Rightarrow>
                         Inr \<lparr> transaction = tx,
                               mpcPayloads = [\<lparr> index = 0, payload = txHash \<rparr>] \<rparr>))))"

text \<open>
  \<open>mpcSignatures[0]\<close> of an empty array is \<open>undefined\<close>, and reading its field \<open>r\<close>
  in \<open>parseSignature\<close> throws a \<open>TypeError\<close>.
\<close>

definition addSignature :: "evm_env \<Rightarrow> obj \<Rightarrow> RSVSignature list \<Rightarrow> error + string" where
  "addSignature env tx mpcSignatures =
     (case array_at mpcSignatures 0 of
        None \<Rightarrow> Inl (TypeError ''Cannot read properties of undefined'')
      | Some first \<Rightarrow>
          (case parseSignature env first of
             Inl e \<Rightarrow> Inl e
           | Inr signature \<Rightarrow>
               Transaction_serialized env (tx(''signature'' \<mapsto> JSignature signature))))"

section \<open>\<open>Bitcoin.handleTransaction\<close>\<close>

record UTXO =
  txid :: string
  vout :: nat
  utxo_value :: int

datatype BTCOutput = ScriptOutput "byte list" int | AddressOutput "string option" int

record BTCTransaction =
  btc_to :: string
  btc_value :: string
  inputs :: "UTXO list option"
  outputs :: "BTCOutput list option"

record NearAuthentication =
  accountId :: string
  networkId :: string

record inputOptions =
  in_hash :: string
  in_index :: nat
  witnessUtxo_script :: "byte list"
  witnessUtxo_value :: int

text \<open>
  What \<open>handleTransaction\<close> observably does with the external signer: it issues a
  signing request for an input (\<open>this.signer(hash)\<close> is called), and later the awaited
  \<open>signInputAsync\<close> of that input completes with the signature bytes.
\<close>

datatype event = SignRequested nat "byte list" | SignCompleted nat "byte list"

text \<open>
  What the class reaches outside the repository. The partially signed transaction
  (\<open>bitcoin.Psbt\<close> of bitcoinjs-lib) is a value of a type \<open>'psbt\<close> with the library's
  operations; \<open>psbt.signInputAsync(i, keyPair)\<close> is the library's sequence: compute the
  signature hash of input \<open>i\<close> (\<open>psbt_sighash\<close>, which throws for an input that does not
  exist or that the key cannot sign), await \<open>keyPair.sign(hash)\<close>, store the result as
  the partial signature of input \<open>i\<close> (\<open>psbt_updateInput\<close>). \<open>completion_order\<close> is
  the order in which the concurrent fetches under \<open>Promise.all\<close> complete.
  \<open>toSatoshi_parseFloat\<close> is \<open>Bitcoin.toSatoshi(parseFloat(value))\<close>, floating-point
  arithmetic.
\<close>

record 'psbt btc_env =
  btc_network :: string
  btc_providerUrl :: string
  btc_contract :: string
  btc_signer :: "byte list \<Rightarrow> error + MPCSignature"
  fetchDerivedBTCAddressAndPublicKey ::
    "string \<Rightarrow> string \<Rightarrow> string \<Rightarrow> string \<Rightarrow> string \<Rightarrow> error + (string \<times> byte list)"
  fetchBTCFeeProperties ::
    "string \<Rightarrow> string \<Rightarrow> (string \<times> int) list \<Rightarrow> error + (UTXO list \<times> BTCOutput list)"
  toSatoshi_parseFloat :: "string \<Rightarrow> int"
  fetchTransaction_outs :: "string \<Rightarrow> error + byte list list"
  completion_order :: "UTXO list \<Rightarrow> UTXO list"
  new_Psbt :: "'psbt"
  psbt_addInput :: "'psbt \<Rightarrow> inputOptions \<Rightarrow> error + 'psbt"
  psbt_addOutput :: "'psbt \<Rightarrow> BTCOutput \<Rightarrow> error + 'psbt"
  psbt_sighash :: "'psbt \<Rightarrow> nat \<Rightarrow> byte list \<Rightarrow> error + byte list"
  psbt_updateInput :: "'psbt \<Rightarrow> nat \<Rightarrow> byte list \<Rightarrow> byte list \<Rightarrow> error + 'psbt"
  psbt_finalizeAllInputs :: "'psbt \<Rightarrow> error + 'psbt"
  psbt_extractTransaction_toHex :: "'psbt \<Rightarrow> error + string"
  axios_post :: "string \<Rightarrow> string \<Rightarrow> error + (nat \<times> string option)"

text \<open>\<open>keyPair.sign\<close>, lines 182 to 185.\<close>

definition keyPair_sign :: "'psbt btc_env \<Rightarrow> byte list \<Rightarrow> error + byte list" where
  "keyPair_sign env hash =
     (case btc_signer env hash of
        Inl e \<Rightarrow> Inl e
      | Inr mpcSignature \<Rightarrow> parseRSVSignature (toRSV mpcSignature))"

definition signInputAsync ::
  "'psbt btc_env \<Rightarrow> byte list \<Rightarrow> 'psbt \<Rightarrow> event list \<Rightarrow> nat
     \<Rightarrow> (error + 'psbt) \<times> event list" where
  "signInputAsync env pubKey psbt tr i =
     (case psbt_sighash env psbt i pubKey of
        Inl e \<Rightarrow> (Inl e, tr)
      | Inr hash \<Rightarrow>
          (case keyPair_sign env hash of
             Inl e \<Rightarrow> (Inl e, tr @ [SignRequested i hash])
           | Inr signature \<Rightarrow>
               (psbt_updateInput env psbt i pubKey signature,
                tr @ [SignRequested i hash, SignCompleted i signature])))"

text \<open>
  The loop of lines 189 to 191, \<open>for (let index = 0; index < inputs.length; index += 1)
  await psbt.signInputAsync(index, keyPair)\<close>, from the index \<open>i\<close> on; a rejected
  \<open>await\<close> leaves the loop.
\<close>

function sign_inputs ::
  "'psbt btc_env \<Rightarrow> byte list \<Rightarrow> nat \<Rightarrow> nat \<Rightarrow> 'psbt \<Rightarrow> event list
     \<Rightarrow> (error + 'psbt) \<times> event list" where
  "sign_inputs env pubKey n i psbt tr =
     (if i < n
      then (case signInputAsync env pubKey psbt tr i of
              (Inl e, tr') \<Rightarrow> (Inl e, tr')
            | (Inr psbt', tr') \<Rightarrow> sign_inputs env pubKey n (i + 1) psbt' tr')
      else (Inr psbt, tr))"
  by pat_completeness auto
termination
  by (relation "measure (\<lambda>(env, pubKey, n, i, psbt, tr). n - i)") auto

declare sign_inputs.simps [simp del]

text \<open>Lines 131 to 139: the inputs and outputs of the request, or the ones fetched.\<close>

definition resolve_inputs_outputs ::
  "'psbt btc_env \<Rightarrow> BTCTransaction \<Rightarrow> string \<Rightarrow> error + (UTXO list \<times> BTCOutput list)" where
  "resolve_inputs_outputs env data addr =
     (case (inputs data, outputs data) of
        (Some ins, Some outs) \<Rightarrow> Inr (ins, outs)
      | _ \<Rightarrow>
          fetchBTCFeeProperties env (btc_providerUrl env) addr
            [(btc_to data, toSatoshi_parseFloat env (btc_value data))])"

text \<open>Lines 146 to 164, in the order the fetches complete.\<close>

fun add_inputs :: "'psbt btc_env \<Rightarrow> 'psbt \<Rightarrow> UTXO list \<Rightarrow> error + 'psbt" where
  "add_inputs env psbt [] = Inr psbt"
| "add_inputs env psbt (utxo # rest) =
     (case fetchTransaction_outs env (txid utxo) of
        Inl e \<Rightarrow> Inl e
      | Inr outs \<Rightarrow>
          (case array_at outs (vout utxo) of
             None \<Rightarrow> Inl (TypeError ''Cannot read properties of undefined'')
           | Some prevOut_script \<Rightarrow>
               (case psbt_addInput env psbt
                       \<lparr> in_hash = txid utxo, in_index = vout utxo,
                         witnessUtxo_script = prevOut_script,
                         witnessUtxo_value = utxo_value utxo \<rparr> of
                  Inl e \<Rightarrow> Inl e
                | Inr psbt' \<Rightarrow> add_inputs env psbt' rest)))"

text \<open>Lines 166 to 178; \<open>out.address || address\<close> falls back on the sender's address.\<close>

fun add_outputs :: "'psbt btc_env \<Rightarrow> string \<Rightarrow> 'psbt \<Rightarrow> BTCOutput list \<Rightarrow> error + 'psbt" where
  "add_outputs env addr psbt [] = Inr psbt"
| "add_outputs env addr psbt (out # rest) =
     (case psbt_addOutput env psbt
             (case out of
                ScriptOutput script v \<Rightarrow> ScriptOutput script v
              | AddressOutput a v \<Rightarrow>
                  AddressOutput
                    (Some (case a of
                             None \<Rightarrow> addr
                           | Some x \<Rightarrow> if x = [] then addr else x)) v) of
        Inl e \<Rightarrow> Inl e
      | Inr psbt' \<Rightarrow> add_outputs env addr psbt' rest)"

text \<open>\<open>sendTransaction\<close>, lines 104 to 116: every failure is rethrown with one message.\<close>

definition sendTransaction :: "'psbt btc_env \<Rightarrow> string \<Rightarrow> error + string option" where
  "sendTransaction env txHex =
     (case axios_post env (btc_providerUrl env @ ''/tx'') txHex of
        Inl e \<Rightarrow> Inl (Error ''Error broadcasting transaction'')
      | Inr (status, response_data) \<Rightarrow>
          if status = 200 then Inr response_data
          else Inl (Error ''Error broadcasting transaction''))"

text \<open>
  \<open>handleTransaction\<close>, lines 118 to 200: the result, and the signing events in the
  order they happened.
\<close>

definition handleTransaction ::
  "'psbt btc_env \<Rightarrow> BTCTransaction \<Rightarrow> NearAuthentication \<Rightarrow> string
     \<Rightarrow> (error + string) \<times> event list" where
  "handleTransaction env data nearAuthentication path =
     (case fetchDerivedBTCAddressAndPublicKey env (accountId nearAuthentication) path
             (btc_network env) (networkId nearAuthentication) (btc_contract env) of
        Inl e \<Rightarrow> (Inl e, [])
      | Inr (addr, pubKey) \<Rightarrow>
     (case resolve_inputs_outputs env data addr of
        Inl e \<Rightarrow> (Inl e, [])
      | Inr (ins, outs) \<Rightarrow>
     (case add_inputs env (new_Psbt env) (completion_order env ins) of
        Inl e \<Rightarrow> (Inl e, [])
      | Inr psbt1 \<Rightarrow>
     (case add_outputs env addr psbt1 outs of
        Inl e \<Rightarrow> (Inl e, [])
      | Inr psbt2 \<Rightarrow>
     (case sign_inputs env pubKey (length ins) 0 psbt2 [] of
        (Inl e, tr) \<Rightarrow> (Inl e, tr)
      | (Inr psbt3, tr) \<Rightarrow>
     (case psbt_finalizeAllInputs env psbt3 of
        Inl e \<Rightarrow> (Inl e, tr)
      | Inr psbt4 \<Rightarrow>
     (case psbt_extractTransaction_toHex env psbt4 of
        Inl e \<Rightarrow> (Inl e, tr)
      | Inr txHex \<Rightarrow>
     (case sendTransaction env txHex of
        Inl e \<Rightarrow> (Inl e, tr)
      | Inr None \<Rightarrow> (Inl (Error ''Failed to broadcast transaction''), tr)
      | Inr (Some t) \<Rightarrow>
          if t = [] then (Inl (Error ''Failed to broadcast transaction''), tr)
          else (Inr t, tr)))))))))"

section \<open>Notions the statements use\<close>

text \<open>The number a byte string encodes, most significant byte first.\<close>

definition be_nat :: "byte list \<Rightarrow> nat" where
  "be_nat bs = foldl (\<lambda>acc b. 256 * acc + unat b) 0 bs"

text \<open>The number a string of hexadecimal digits encodes.\<close>

definition hex_nat :: "string \<Rightarrow> nat" where
  "hex_nat s = foldl (\<lambda>acc c. 16 * acc + (case unhex c of Some d \<Rightarrow> d | None \<Rightarrow> 0)) 0 s"

text \<open>
  Modelled from the spec: the declaration of \<open>MPCSignature\<close> (\<open>src/signature/types.ts\<close>)
  is not among the sources. The spec's data model has an elliptic-curve point component
  with an encoding prefix, a scalar component and a recovery indicator, and normalizes
  them to two 32-byte scalar hex strings: a well-formed signature has a point of one
  prefix byte and 32 bytes (66 hexadecimal digits) and a scalar of 32 bytes (64 digits).
\<close>

definition well_formed_MPCSignature :: "MPCSignature \<Rightarrow> bool" where
  "well_formed_MPCSignature signature =
     (length (affine_point (mpc_big_r signature)) = 66 \<and>
      hex_string (affine_point (mpc_big_r signature)) \<and>
      length (scalar (mpc_s signature)) = 64 \<and>
      hex_string (scalar (mpc_s signature)))"

text \<open>
  The indices of the signing requests of an event list, and of the completions, in order;
  and the event lists in which requests and completions alternate, each request followed
  by its own completion, for the indices \<open>k\<close>, \<open>k + 1\<close>, ... (a last request may be
  left without completion: the one that failed).
\<close>

fun requested :: "event list \<Rightarrow> nat list" where
  "requested [] = []"
| "requested (SignRequested i h # es) = i # requested es"
| "requested (SignCompleted i s # es) = requested es"

fun completed :: "event list \<Rightarrow> nat list" where
  "completed [] = []"
| "completed (SignRequested i h # es) = completed es"
| "completed (SignCompleted i s # es) = i # completed es"

fun well_sequenced :: "nat \<Rightarrow> event list \<Rightarrow> bool" where
  "well_sequenced k [] = True"
| "well_sequenced k [SignRequested i h] = (i = k)"
| "well_sequenced k (SignRequested i h # SignCompleted j s # rest) =
     (i = k \<and> j = k \<and> well_sequenced (Suc k) rest)"
| "well_sequenced k (e # rest) = False"

definition signing_events ::
  "'psbt btc_env \<Rightarrow> BTCTransaction \<Rightarrow> NearAuthentication \<Rightarrow> string \<Rightarrow> event list" where
  "signing_events env data nearAuthentication path =
     snd (handleTransaction env data nearAuthentication path)"

text \<open>A root key in NEAR's text form, and the 64 bytes it decodes to.\<close>

definition example_naj_key :: string where
  "example_naj_key =
     ''secp256k1:4NfTiv3UsGahebgTaHyD9vF8KYKMBnfd6kh94mK6xv8fGBiJB8TBtFMP5WWXz6B89Ac1fbpzPwAvoyQebemHFwx3''"

definition example_decoded :: "byte list" where
  "example_decoded = Buffer_from_hex
     ''a8bb8176747682aab5c681d4ef375ca537023b2b287d8b5f9d89505277a5a291538ef3680882d8fb793a62a5fdb4c6974c7cd8f9eb0b9cbbf659314c30347000''"

text \<open>
  The statements about the EVM adapter hold for every environment. The instances
  below use this one: a provider and a contract with fixed answers, a serializer that writes the
  signature after a fixed prefix, and a function with 32 bytes of output in the place of
  Keccak-256 (no statement depends on which function it is).
\<close>

definition example_hash :: "byte list \<Rightarrow> byte list" where
  "example_hash bs = take 32 (rev bs @ replicate 32 0)"

definition example_fees :: obj where
  "example_fees = [''maxFeePerGas'' \<mapsto> JBigInt 30, ''maxPriorityFeePerGas'' \<mapsto> JBigInt 2,
                   ''gasLimit'' \<mapsto> JBigInt 21000]"

definition example_evm_env :: evm_env where
  "example_evm_env =
     \<lparr> provider_url = ''http://localhost:8545'',
       network_chainId = 1,
       fetchEVMFeeProperties = (\<lambda>url tx. Inr example_fees),
       getTransactionCount = (\<lambda>addr tag. Inr 7),
       getDerivedPublicKey = (\<lambda>path predecessor. Inr (Some (''04'' @ Buffer_toString_hex example_decoded))),
       keccak = example_hash,
       Transaction_unsignedSerialized = (\<lambda>tx. Inr ''0x02c0''),
       Transaction_serialized =
         (\<lambda>tx. case tx ''signature'' of
                 Some (JSignature sg) \<Rightarrow> Inr (''0x02'' @ drop 2 (sig_r sg) @ drop 2 (sig_s sg))
               | _ \<Rightarrow> Inl (Error ''unsigned transaction cannot be serialized'')),
       Signature_from =
         (\<lambda>l. Inr \<lparr> sig_r = like_r l, sig_s = like_s l, sig_v = like_v l \<rparr>) \<rparr>"

definition example_request :: obj where
  "example_request = [''from'' \<mapsto> JString ''0xaa'', ''to'' \<mapsto> JString ''0xbb'',
                      ''value'' \<mapsto> JString ''1000000000000000000'']"

definition example_signature :: RSVSignature where
  "example_signature =
     \<lparr> rsv_r = ''a8bb8176747682aab5c681d4ef375ca537023b2b287d8b5f9d89505277a5a291'',
       rsv_s = ''1111111111111111111111111111111111111111111111111111111111111111'',
       rsv_v = 27 \<rparr>"

definition other_signature :: RSVSignature where
  "other_signature =
     \<lparr> rsv_r = ''2222222222222222222222222222222222222222222222222222222222222222'',
       rsv_s = ''3333333333333333333333333333333333333333333333333333333333333333'',
       rsv_v = 28 \<rparr>"

text \<open>
  An environment for the instances of \<open>handleTransaction\<close>: the partially signed
  transaction is the number of its inputs and the list of signatures stored so far, the
  signature hash of input \<open>i\<close> is the byte \<open>i\<close>, and the signer answers every request
  with the same signature.
\<close>

definition example_mpc_signature :: MPCSignature where
  "example_mpc_signature =
     \<lparr> mpc_big_r = \<lparr> affine_point =
         ''02aaaaaaaaaaaaaaaaaaaaaaaaaaaaaaaaaaaaaaaaaaaaaaaaaaaaaaaaaaaaaaaa'' \<rparr>,
       mpc_s = \<lparr> scalar =
         ''5555555555555555555555555555555555555555555555555555555555555555'' \<rparr>,
       recovery_id = 0 \<rparr>"

definition example_raw_signature :: "byte list" where
  "example_raw_signature = replicate 32 0xAA @ replicate 32 0x55"

definition example_btc_env :: "(nat \<times> (nat \<times> byte list) list) btc_env" where
  "example_btc_env =
     \<lparr> btc_network = ''testnet'',
       btc_providerUrl = ''https://blockstream.info/testnet/api'',
       btc_contract = ''v1.signer-prod.testnet'',
       btc_signer = (\<lambda>hash. Inr example_mpc_signature),
       fetchDerivedBTCAddressAndPublicKey =
         (\<lambda>signerId path btcNetworkId nearNetworkId contractId.
            Inr (''tb1qsender'', Buffer_from_hex
              ''02a8bb8176747682aab5c681d4ef375ca537023b2b287d8b5f9d89505277a5a291'')),
       fetchBTCFeeProperties = (\<lambda>url addr targets. Inl (Rejected ''no network'')),
       toSatoshi_parseFloat = (\<lambda>v. 10000),
       fetchTransaction_outs = (\<lambda>t. Inr [[0x00, 0x14]]),
       completion_order = rev,
       new_Psbt = (0, []),
       psbt_addInput = (\<lambda>psbt opts. Inr (Suc (fst psbt), snd psbt)),
       psbt_addOutput = (\<lambda>psbt out. Inr psbt),
       psbt_sighash =
         (\<lambda>psbt i pubKey. if i < fst psbt then Inr [of_nat i] else Inl (Error ''No input'')),
       psbt_updateInput = (\<lambda>psbt i pubKey signature. Inr (fst psbt, snd psbt @ [(i, signature)])),
       psbt_finalizeAllInputs =
         (\<lambda>psbt. if length (snd psbt) = fst psbt then Inr psbt
                  else Inl (Error ''Can not finalize input'')),
       psbt_extractTransaction_toHex = (\<lambda>psbt. Inr ''02000000''),
       axios_post = (\<lambda>url body. Inr (200, Some ''txid0'')) \<rparr>"

definition example_btc_transaction :: BTCTransaction where
  "example_btc_transaction =
     \<lparr> btc_to = ''tb1qrecipient'', btc_value = ''0.0001'',
       inputs = Some [\<lparr> txid = ''aa'', vout = 0, utxo_value = 6000 \<rparr>,
                      \<lparr> txid = ''bb'', vout = 0, utxo_value = 5000 \<rparr>],
       outputs = Some [AddressOutput (Some ''tb1qrecipient'') 10000] \<rparr>"

definition example_authentication :: NearAuthentication where
  "example_authentication = \<lparr> accountId = ''signer.testnet'', networkId = ''testnet'' \<rparr>"

















section \<open>Hexadecimal encoding and decoding\<close>

lemma length_byte_hex: "length (byte_hex b) = 2"
  by (simp add: byte_hex_def)

lemma length_Buffer_toString_hex: "length (Buffer_toString_hex bs) = 2 * length bs"
  by (induction bs) (simp_all add: Buffer_toString_hex_def length_byte_hex)

lemma unhex_hex_digit: "n < 16 \<Longrightarrow> unhex (hex_digit n) = Some n"
  by (auto simp: hex_digit_def unhex_def less_Suc_eq numeral_eq_Suc)

lemma Buffer_from_hex_byte_hex:
  "Buffer_from_hex (byte_hex b @ rest) = b # Buffer_from_hex rest"
proof -
  have d: "unat b div 16 < 16"
    using unsigned_less [of b, where 'a = nat] by (simp add: less_mult_imp_div_less)
  have m: "unat b mod 16 < 16" by simp
  show ?thesis
    by (simp add: byte_hex_def unhex_hex_digit [OF d] unhex_hex_digit [OF m])
qed

lemma Buffer_from_hex_toString_append:
  "Buffer_from_hex (Buffer_toString_hex bs @ rest) = bs @ Buffer_from_hex rest"
  by (induction bs) (simp_all add: Buffer_toString_hex_def Buffer_from_hex_byte_hex)

lemma Buffer_from_hex_toString: "Buffer_from_hex (Buffer_toString_hex bs) = bs"
  using Buffer_from_hex_toString_append [of bs "[]"] by simp

lemma hex_string_byte_hex: "hex_string (byte_hex b)"
proof -
  have d: "unat b div 16 < 16"
    using unsigned_less [of b, where 'a = nat] by (simp add: less_mult_imp_div_less)
  have m: "unat b mod 16 < 16" by simp
  show ?thesis
    by (simp add: hex_string_def byte_hex_def unhex_hex_digit [OF d] unhex_hex_digit [OF m])
qed

lemma hex_string_append: "hex_string (xs @ ys) = (hex_string xs \<and> hex_string ys)"
  by (simp add: hex_string_def)

lemma hex_string_toString: "hex_string (Buffer_toString_hex bs)"
  by (induction bs) (simp_all add: Buffer_toString_hex_def hex_string_append hex_string_byte_hex, simp add: hex_string_def)

lemma take_toString: "take (2 * n) (Buffer_toString_hex bs) = Buffer_toString_hex (take n bs)"
proof (induction bs arbitrary: n)
  case Nil
  then show ?case by (simp add: Buffer_toString_hex_def)
next
  case (Cons b bs)
  show ?case
  proof (cases n)
    case 0
    then show ?thesis by (simp add: Buffer_toString_hex_def)
  next
    case (Suc k)
    with Cons.IH [of k] show ?thesis
      by (simp add: Buffer_toString_hex_def byte_hex_def)
  qed
qed

lemma drop_toString: "drop (2 * n) (Buffer_toString_hex bs) = Buffer_toString_hex (drop n bs)"
proof (induction bs arbitrary: n)
  case Nil
  then show ?case by (simp add: Buffer_toString_hex_def)
next
  case (Cons b bs)
  show ?case
  proof (cases n)
    case 0
    then show ?thesis by (simp add: Buffer_toString_hex_def)
  next
    case (Suc k)
    with Cons.IH [of k] show ?thesis
      by (simp add: Buffer_toString_hex_def byte_hex_def)
  qed
qed

lemma Buffer_from_hex_append:
  "hex_string xs \<Longrightarrow> even (length xs) \<Longrightarrow>
   Buffer_from_hex (xs @ ys) = Buffer_from_hex xs @ Buffer_from_hex ys"
  by (induction xs rule: Buffer_from_hex.induct)
     (auto simp: hex_string_def split: option.splits)

lemma length_Buffer_from_hex:
  "hex_string xs \<Longrightarrow> length (Buffer_from_hex xs) = length xs div 2"
  by (induction xs rule: Buffer_from_hex.induct)
     (auto simp: hex_string_def split: option.splits)

lemma be_nat_snoc: "be_nat (bs @ [b]) = 256 * be_nat bs + unat b"
  by (simp add: be_nat_def)

lemma even_be_nat: "bs \<noteq> [] \<Longrightarrow> even (be_nat bs) = even (unat (last bs))"
  by (cases bs rule: rev_cases) (simp_all add: be_nat_snoc)

lemma slice_last_toString:
  "bs \<noteq> [] \<Longrightarrow> slice_last (Buffer_toString_hex bs) = [hex_digit (unat (last bs) mod 16)]"
  by (cases bs rule: rev_cases)
     (simp_all add: slice_last_def Buffer_toString_hex_def byte_hex_def)

lemma parseInt16_last_digit:
  assumes "bs \<noteq> []"
  shows "parseInt16 (slice_last (Buffer_toString_hex bs)) = Some (unat (last bs) mod 16)"
proof -
  have "unat (last bs) mod 16 < 16" by simp
  then show ?thesis
    by (simp add: slice_last_toString [OF assms] parseInt16_def unhex_hex_digit)
qed

lemma even_mod_16: "even ((n::nat) mod 16) = even n"
  by presburger

lemma hex_string_drop: "hex_string s \<Longrightarrow> hex_string (drop n s)"
  unfolding hex_string_def list_all_iff by (auto dest: in_set_dropD)

lemma example_decode:
  "base_decode (array_at (split_on CHR '':'' example_naj_key) 1) = Inr example_decoded"
  by (simp add: example_naj_key_def example_decoded_def array_at_def base_decode_def
      base58_alphabet_def bytes_be.simps unhex_def)

lemma example_decoded_hex:
  "Buffer_toString_hex example_decoded =
   ''a8bb8176747682aab5c681d4ef375ca537023b2b287d8b5f9d89505277a5a291538ef3680882d8fb793a62a5fdb4c6974c7cd8f9eb0b9cbbf659314c30347000''"
  by code_simp

lemma unhex_less: "unhex c = Some d \<Longrightarrow> d < 16"
  by (auto simp: unhex_def Let_def split: if_splits)

lemma foldl_from_hex:
  "hex_string s \<Longrightarrow> even (length s) \<Longrightarrow>
   foldl (\<lambda>acc b. 256 * acc + unat b) a (Buffer_from_hex s) =
   foldl (\<lambda>acc c. 16 * acc + (case unhex c of Some d \<Rightarrow> d | None \<Rightarrow> 0)) a s"
proof (induction s arbitrary: a rule: Buffer_from_hex.induct)
  case (1 x y rest)
  from "1.prems" obtain dx dy where dx: "unhex x = Some dx" and dy: "unhex y = Some dy"
    and rest: "hex_string rest" "even (length rest)"
    by (auto simp: hex_string_def)
  have "16 * dx + dy < 256"
    using unhex_less [OF dx] unhex_less [OF dy] by arith
  then have u: "unat (16 * word_of_nat dx + word_of_nat dy :: byte) = 16 * dx + dy"
    using unat_of_nat [of "16 * dx + dy", where 'a = 8] by simp
  have e: "16 * (16 * a + dx) + dy = 256 * a + (16 * dx + dy)"
    by simp
  have "foldl (\<lambda>acc b. 256 * acc + unat b) a (Buffer_from_hex (x # y # rest)) =
        foldl (\<lambda>acc b. 256 * acc + unat b) (256 * a + (16 * dx + dy)) (Buffer_from_hex rest)"
    by (simp add: dx dy u)
  also have "\<dots> =
        foldl (\<lambda>acc c. 16 * acc + (case unhex c of Some d \<Rightarrow> d | None \<Rightarrow> 0))
          (256 * a + (16 * dx + dy)) rest"
    by (rule "1.IH" [OF refl dx dy rest])
  also have "\<dots> =
        foldl (\<lambda>acc c. 16 * acc + (case unhex c of Some d \<Rightarrow> d | None \<Rightarrow> 0))
          a (x # y # rest)"
    by (simp only: foldl_Cons dx dy option.case e)
  finally show ?case .
qed simp_all

lemma be_nat_from_hex:
  "hex_string s \<Longrightarrow> even (length s) \<Longrightarrow> be_nat (Buffer_from_hex s) = hex_nat s"
  unfolding be_nat_def hex_nat_def by (rule foldl_from_hex)

lemma hex_nat_zeros: "hex_nat (replicate k CHR ''0'' @ s) = hex_nat s"
proof -
  have "foldl (\<lambda>acc c. 16 * acc + (case unhex c of Some d \<Rightarrow> d | None \<Rightarrow> 0)) 0
          (replicate k CHR ''0'') = 0"
    by (induction k) (simp_all add: unhex_def)
  then show ?thesis by (simp add: hex_nat_def)
qed

lemma hex_string_zeros: "hex_string (replicate k CHR ''0'')"
  by (induction k) (simp_all add: hex_string_def unhex_def)

lemma hex_string_padStart: "hex_string s \<Longrightarrow> hex_string (padStart n CHR ''0'' s)"
  by (simp add: padStart_def hex_string_append hex_string_zeros)

lemma length_padStart: "length s \<le> n \<Longrightarrow> length (padStart n c s) = n"
  by (simp add: padStart_def)

lemma replicate_numeral_unfold:
  "replicate (numeral k) x = x # replicate (pred_numeral k) x"
  by (simp add: numeral_eq_Suc)

lemma getBytes_hexlify: "getBytes (HexString (hexlify bs)) = Inr bs"
  by (simp add: getBytes_def hexlify_def startsWith_def length_Buffer_toString_hex
      hex_string_toString Buffer_from_hex_toString)

lemma keccak256_Bytes: "keccak256 env (Bytes bs) = Inr (hexlify (keccak env bs))"
  by (simp add: keccak256_def getBytes_def)

lemma last_40_of_hash:
  assumes "length h = 32"
  shows "drop (length (hexlify h) - 40) (hexlify h) = Buffer_toString_hex (drop 12 h)"
proof -
  have "length (hexlify h) - 40 = 2 + 2 * 12"
    using assms by (simp add: hexlify_def length_Buffer_toString_hex)
  then have "drop (length (hexlify h) - 40) (hexlify h) = drop (2 * 12) (Buffer_toString_hex h)"
    by (simp add: hexlify_def)
  then show ?thesis
    by (simp only: drop_toString)
qed

section \<open>The EVM payload\<close>

lemma getMPCPayloadAndTransaction_returns:
  assumes fees: "fetchEVMFeeProperties env (provider_url env) request = Inr fees"
    and nonce: "getTransactionCount env (request ''from'') ''latest'' = Inr nonce"
    and ser: "Transaction_unsignedSerialized env
                (fees ++ [''chainId'' \<mapsto> JBigInt (network_chainId env),
                          ''nonce'' \<mapsto> JNumber nonce,
                          ''type'' \<mapsto> JNumber 2]
                      ++ request(''from'' := None)) = Inr txSerialized"
    and pre: "getBytes (HexString txSerialized) = Inr preimage"
  shows "getMPCPayloadAndTransaction env request =
           Inr \<lparr> transaction =
                   fees ++ [''chainId'' \<mapsto> JBigInt (network_chainId env),
                            ''nonce'' \<mapsto> JNumber nonce,
                            ''type'' \<mapsto> JNumber 2]
                        ++ request(''from'' := None),
                 mpcPayloads = [\<lparr> index = 0, payload = keccak env preimage \<rparr>] \<rparr>"
  unfolding getMPCPayloadAndTransaction_def attachGasAndNonce_def
  by (simp add: fees nonce ser Let_def keccak256_def pre getBytes_hexlify del: map_add_upd)

lemma getMPCPayloadAndTransaction_shape:
  assumes "getMPCPayloadAndTransaction env request = Inr res"
  shows "\<exists>ser pre. attachGasAndNonce env request = Inr (transaction res) \<and>
           Transaction_unsignedSerialized env (transaction res) = Inr ser \<and>
           getBytes (HexString ser) = Inr pre \<and>
           mpcPayloads res = [\<lparr> index = 0, payload = keccak env pre \<rparr>]"
  using assms
  by (auto simp: getMPCPayloadAndTransaction_def keccak256_def getBytes_hexlify
      split: sum.splits)

section \<open>The signing loop\<close>

lemma signInputAsync_cases:
  assumes "signInputAsync env pubKey psbt tr i = (r, tr')"
  shows "(\<exists>e. r = Inl e \<and> tr' = tr) \<or>
         (\<exists>e h. r = Inl e \<and> tr' = tr @ [SignRequested i h]) \<or>
         (\<exists>h s. tr' = tr @ [SignRequested i h, SignCompleted i s] \<and>
                psbt_sighash env psbt i pubKey = Inr h \<and> keyPair_sign env h = Inr s \<and>
                r = psbt_updateInput env psbt i pubKey s)"
  using assms by (auto simp: signInputAsync_def split: sum.splits)

lemma sign_inputs_trace:
  "sign_inputs env pubKey n i psbt tr = (r, tr') \<Longrightarrow>
   \<exists>t. tr' = tr @ t \<and> well_sequenced i t \<and> (\<forall>x \<in> set (requested t). x < n) \<and>
       (\<forall>p. r = Inr p \<longrightarrow> requested t = [i..<n] \<and> completed t = [i..<n])"
proof (induction env pubKey n i psbt tr arbitrary: r tr' rule: sign_inputs.induct)
  case (1 env pubKey n i psbt tr)
  show ?case
  proof (cases "i < n")
    case False
    with "1.prems" show ?thesis
      by (simp add: sign_inputs.simps)
  next
    case True
    obtain r1 tr1 where step: "signInputAsync env pubKey psbt tr i = (r1, tr1)"
      by (cases "signInputAsync env pubKey psbt tr i")
    show ?thesis
    proof (cases r1)
      case (Inl e)
      with "1.prems" True step have res: "r = Inl e" "tr' = tr1"
        by (simp_all add: sign_inputs.simps)
      from signInputAsync_cases [OF step] Inl
      consider "tr1 = tr" | h where "tr1 = tr @ [SignRequested i h]"
        | h s where "tr1 = tr @ [SignRequested i h, SignCompleted i s]"
        by blast
      then show ?thesis
      proof cases
        case 1
        with res show ?thesis by simp
      next
        case 2
        with res True show ?thesis by simp
      next
        case 3
        with res True show ?thesis by simp
      qed
    next
      case (Inr psbt')
      with "1.prems" True step
      have rec: "sign_inputs env pubKey n (i + 1) psbt' tr1 = (r, tr')"
        by (simp add: sign_inputs.simps)
      from signInputAsync_cases [OF step] Inr
      obtain h s where tr1: "tr1 = tr @ [SignRequested i h, SignCompleted i s]"
        by blast
      from "1.IH" [OF True step [symmetric] Inr rec]
      obtain t where t: "tr' = tr1 @ t" "well_sequenced (i + 1) t"
        "\<forall>p. r = Inr p \<longrightarrow> requested t = [i + 1..<n] \<and> completed t = [i + 1..<n]"
        and bound: "\<forall>x \<in> set (requested t). x < n"
        by blast
      have "tr' = tr @ (SignRequested i h # SignCompleted i s # t)"
        using t(1) tr1 by simp
      moreover have "well_sequenced i (SignRequested i h # SignCompleted i s # t)"
        using t(2) by simp
      moreover have "\<forall>x \<in> set (requested (SignRequested i h # SignCompleted i s # t)). x < n"
        using bound True by simp
      moreover have "\<forall>p. r = Inr p \<longrightarrow>
          requested (SignRequested i h # SignCompleted i s # t) = [i..<n] \<and>
          completed (SignRequested i h # SignCompleted i s # t) = [i..<n]"
        using t(3) True by (simp add: upt_conv_Cons)
      ultimately show ?thesis by blast
    qed
  qed
qed

lemma well_sequenced_requested:
  "well_sequenced k t \<Longrightarrow> \<exists>m. requested t = [k..<k + m]"
proof (induction k t rule: well_sequenced.induct)
  case (3 k i h j s rest)
  then obtain m where "requested rest = [Suc k..<Suc k + m]" by auto
  with 3 have "requested (SignRequested i h # SignCompleted j s # rest) = [k..<k + Suc m]"
    by (simp add: upt_conv_Cons)
  then show ?case by blast
next
  case (2 k i h)
  then have "requested [SignRequested i h] = [k..<k + 1]" by simp
  then show ?case by blast
next
  case (1 k)
  have "requested [] = [k..<k + 0]" by simp
  then show ?case by blast
qed simp_all

lemma well_sequenced_nth:
  "well_sequenced k t \<Longrightarrow>
   (2 * j < length t \<longrightarrow> (\<exists>h. t ! (2 * j) = SignRequested (k + j) h)) \<and>
   (2 * j + 1 < length t \<longrightarrow> (\<exists>s. t ! (2 * j + 1) = SignCompleted (k + j) s))"
proof (induction k t arbitrary: j rule: well_sequenced.induct)
  case (3 k i h j' s rest)
  show ?case
  proof (cases j)
    case 0
    with 3 show ?thesis by simp
  next
    case (Suc j0)
    with "3.IH" [of j0] "3.prems" show ?thesis by simp
  qed
next
  case (2 k i h)
  then show ?case by (cases j) simp_all
qed simp_all

lemma well_sequenced_order:
  assumes ws: "well_sequenced 0 t" and p: "p < length t"
    and ev: "t ! p = SignRequested (Suc i) h"
  shows "\<exists>q s. q < p \<and> t ! q = SignCompleted i s"
proof (cases "even p")
  case True
  then obtain j where j: "p = 2 * j" by (auto elim: evenE)
  with well_sequenced_nth [OF ws, of j] p obtain h' where "t ! p = SignRequested (0 + j) h'"
    by auto
  with ev have ji: "j = Suc i" by simp
  then have "2 * i + 1 < length t" using j p by simp
  with well_sequenced_nth [OF ws, of i] obtain s where "t ! (2 * i + 1) = SignCompleted i s"
    by auto
  moreover have "2 * i + 1 < p" using j ji by simp
  ultimately show ?thesis by blast
next
  case False
  then obtain j where j: "p = 2 * j + 1" by (auto elim: oddE)
  with well_sequenced_nth [OF ws, of j] p obtain s where "t ! p = SignCompleted (0 + j) s"
    by auto
  with ev show ?thesis by simp
qed

lemma handleTransaction_trace:
  assumes "handleTransaction env data nearAuthentication path = (r, tr)"
  shows "(tr = [] \<and> (\<forall>t. r \<noteq> Inr t) ) \<or>
         (\<exists>addr pubKey ins outs psbt2 r'.
            resolve_inputs_outputs env data addr = Inr (ins, outs) \<and>
            sign_inputs env pubKey (length ins) 0 psbt2 [] = (r', tr) \<and>
            ((\<exists>t. r = Inr t) \<longrightarrow> (\<exists>p. r' = Inr p)))"
proof (cases "fetchDerivedBTCAddressAndPublicKey env (accountId nearAuthentication) path
             (btc_network env) (networkId nearAuthentication) (btc_contract env)")
  case (Inl e)
  with assms show ?thesis by (auto simp: handleTransaction_def)
next
  case derived: (Inr ap)
  obtain addr pubKey where ap: "ap = (addr, pubKey)" by (cases ap)
  show ?thesis
  proof (cases "resolve_inputs_outputs env data addr")
    case (Inl e)
    with assms derived ap show ?thesis by (auto simp: handleTransaction_def)
  next
    case resolved: (Inr io)
    obtain ins outs where io: "io = (ins, outs)" by (cases io)
    show ?thesis
    proof (cases "add_inputs env (new_Psbt env) (completion_order env ins)")
      case (Inl e)
      with assms derived ap resolved io show ?thesis by (auto simp: handleTransaction_def)
    next
      case added: (Inr psbt1)
      show ?thesis
      proof (cases "add_outputs env addr psbt1 outs")
        case (Inl e)
        with assms derived ap resolved io added show ?thesis
          by (auto simp: handleTransaction_def)
      next
        case (Inr psbt2)
        obtain r' tr2 where loop: "sign_inputs env pubKey (length ins) 0 psbt2 [] = (r', tr2)"
          by (cases "sign_inputs env pubKey (length ins) 0 psbt2 []")
        from assms derived ap resolved io added Inr loop
        have "tr = tr2 \<and> ((\<exists>t. r = Inr t) \<longrightarrow> (\<exists>p. r' = Inr p))"
          by (auto simp: handleTransaction_def split: sum.splits option.splits if_splits)
        with resolved io loop
        have c: "resolve_inputs_outputs env data addr = Inr (ins, outs) \<and>
                 sign_inputs env pubKey (length ins) 0 psbt2 [] = (r', tr) \<and>
                 ((\<exists>t. r = Inr t) \<longrightarrow> (\<exists>p. r' = Inr p))"
          by simp
        show ?thesis
          by (intro disjI2 exI [of _ addr] exI [of _ pubKey] exI [of _ ins] exI [of _ outs]
              exI [of _ psbt2] exI [of _ r']) (rule c)
      qed
    qed
  qed
qed

lemma upt_bound:
  assumes "\<forall>x \<in> set [0..<m]. x < n"
  shows "m \<le> n"
proof (cases m)
  case 0
  then show ?thesis by simp
next
  case (Suc k)
  then have "k \<in> set [0..<m]" by simp
  with assms have "k < n" by blast
  with Suc show ?thesis by simp
qed

lemma resolve_given:
  "inputs data = Some ins \<Longrightarrow> outputs data = Some outs \<Longrightarrow>
   resolve_inputs_outputs env data addr = Inr (ins, outs)"
  by (simp add: resolve_inputs_outputs_def)

lemma example_parse:
  "parseRSVSignature (toRSV example_mpc_signature) = Inr example_raw_signature"
  by (simp add: parseRSVSignature_def toRSV_def example_mpc_signature_def padStart_def
      unhex_def example_raw_signature_def replicate_numeral_unfold)

lemma example_run:
  "handleTransaction example_btc_env example_btc_transaction example_authentication ''path'' =
     (Inr ''txid0'',
      [SignRequested 0 [0], SignCompleted 0 example_raw_signature,
       SignRequested 1 [1], SignCompleted 1 example_raw_signature])"
  by (simp add: handleTransaction_def example_btc_env_def example_btc_transaction_def
      example_authentication_def resolve_inputs_outputs_def array_at_def sendTransaction_def
      sign_inputs.simps signInputAsync_def keyPair_sign_def example_parse)

section \<open>Signatures as the signer answers them\<close>
















section \<open>Signature normalization (\<open>toRSV\<close>)\<close>

text \<open>
  Claim C5. \<open>toRSV\<close> is a pure function of its argument: \<open>r\<close> is the point component
  without its first two hexadecimal characters, \<open>s\<close> is the scalar component as it is,
  \<open>v\<close> is the recovery indicator as it is. For a well-formed signature \<open>r\<close> and \<open>s\<close>
  are strings of 64 hexadecimal digits, which are 32 bytes each.
\<close>

theorem toRSV_normalizes:
  "rsv_r (toRSV signature) = drop 2 (affine_point (mpc_big_r signature)) \<and>
   rsv_s (toRSV signature) = scalar (mpc_s signature) \<and>
   rsv_v (toRSV signature) = recovery_id signature \<and>
   (well_formed_MPCSignature signature \<longrightarrow>
      length (rsv_r (toRSV signature)) = 64 \<and> hex_string (rsv_r (toRSV signature)) \<and>
      length (Buffer_from_hex (rsv_r (toRSV signature))) = 32 \<and>
      length (rsv_s (toRSV signature)) = 64 \<and> hex_string (rsv_s (toRSV signature)) \<and>
      length (Buffer_from_hex (rsv_s (toRSV signature))) = 32)"
  by (simp add: toRSV_def well_formed_MPCSignature_def hex_string_drop length_Buffer_from_hex)

theorem toRSV_normalizes_witness:
  "well_formed_MPCSignature
     \<lparr> mpc_big_r = \<lparr> affine_point = ''02'' @ replicate 64 CHR ''a'' \<rparr>,
       mpc_s = \<lparr> scalar = replicate 64 CHR ''5'' \<rparr>, recovery_id = 1 \<rparr> \<and>
   toRSV \<lparr> mpc_big_r = \<lparr> affine_point = ''02'' @ replicate 64 CHR ''a'' \<rparr>,
           mpc_s = \<lparr> scalar = replicate 64 CHR ''5'' \<rparr>, recovery_id = 1 \<rparr> =
     \<lparr> rsv_r = replicate 64 CHR ''a'', rsv_s = replicate 64 CHR ''5'', rsv_v = 1 \<rparr> \<and>
   length (rsv_r (toRSV \<lparr> mpc_big_r = \<lparr> affine_point = ''02'' @ replicate 64 CHR ''a'' \<rparr>,
           mpc_s = \<lparr> scalar = replicate 64 CHR ''5'' \<rparr>, recovery_id = 1 \<rparr>)) = 64"
proof -
  let ?sg = "\<lparr> mpc_big_r = \<lparr> affine_point = ''02'' @ replicate 64 CHR ''a'' \<rparr>,
       mpc_s = \<lparr> scalar = replicate 64 CHR ''5'' \<rparr>, recovery_id = 1 \<rparr>"
  have wf: "well_formed_MPCSignature ?sg"
    by (simp add: well_formed_MPCSignature_def hex_string_def unhex_def list_all_iff)
  have v: "toRSV ?sg = \<lparr> rsv_r = replicate 64 CHR ''a'', rsv_s = replicate 64 CHR ''5'', rsv_v = 1 \<rparr>"
    by (simp add: toRSV_def)
  from toRSV_normalizes [of ?sg] wf have "length (rsv_r (toRSV ?sg)) = 64"
    by blast
  with wf v show ?thesis by blast
qed

section \<open>Root key conversion (\<open>najToPubKey\<close>)\<close>

text \<open>
  Claim C8. When the part of the key after the colon decodes to a coordinate string of
  128 hexadecimal characters (64 bytes), \<open>najToPubKey\<close> with \<open>compress: true\<close> returns 66
  characters: \<open>02\<close> when the y-coordinate (the last 32 bytes, as a number) is even and
  \<open>03\<close> when it is odd, followed by the 64 characters of the x-coordinate.
\<close>

theorem najToPubKey_compressed:
  assumes dec: "base_decode (array_at (split_on CHR '':'' najPubKey) 1) = Inr decoded"
    and len: "length (Buffer_toString_hex decoded) = 128"
  shows "najToPubKey najPubKey \<lparr>compress = True\<rparr> =
           Inr ((if even (be_nat (drop 32 decoded)) then ''02'' else ''03'')
                @ Buffer_toString_hex (take 32 decoded)) \<and>
         length (Buffer_toString_hex (take 32 decoded)) = 64 \<and>
         (\<exists>out. najToPubKey najPubKey \<lparr>compress = True\<rparr> = Inr out \<and> length out = 66 \<and>
                Buffer_from_hex (drop 2 out) = take 32 decoded)"
proof -
  from len have n: "length decoded = 64"
    by (simp add: length_Buffer_toString_hex)
  then have ne: "drop 32 decoded \<noteq> []" by simp
  have x: "take 64 (Buffer_toString_hex decoded) = Buffer_toString_hex (take 32 decoded)"
    using take_toString [of 32 decoded] by simp
  have y: "drop 64 (Buffer_toString_hex decoded) = Buffer_toString_hex (drop 32 decoded)"
    using drop_toString [of 32 decoded] by simp
  have par: "parseInt16 (slice_last (Buffer_toString_hex (drop 32 decoded))) =
             Some (unat (last (drop 32 decoded)) mod 16)"
    by (rule parseInt16_last_digit [OF ne])
  have "even (be_nat (drop 32 decoded)) = even (unat (last (drop 32 decoded)))"
    by (rule even_be_nat [OF ne])
  also have "\<dots> = even (unat (last (drop 32 decoded)) mod 16)"
    by (rule even_mod_16 [symmetric])
  also have "\<dots> = (unat (last (drop 32 decoded)) mod 16 mod 2 = 0)"
    by (rule even_iff_mod_2_eq_zero)
  finally have ev: "(unat (last (drop 32 decoded)) mod 16 mod 2 = 0) = even (be_nat (drop 32 decoded))"
    by (rule sym)
  have res: "najToPubKey najPubKey \<lparr>compress = True\<rparr> =
           Inr ((if even (be_nat (drop 32 decoded)) then ''02'' else ''03'')
                @ Buffer_toString_hex (take 32 decoded))"
    unfolding najToPubKey_def dec
    by (simp add: startsWith_def Let_def len x y par ev)
  have l: "length (Buffer_toString_hex (take 32 decoded)) = 64"
    using n by (simp add: length_Buffer_toString_hex)
  show ?thesis
    using res l by (auto simp: Buffer_from_hex_toString)
qed

theorem najToPubKey_compressed_witness:
  "base_decode (array_at (split_on CHR '':'' example_naj_key) 1) = Inr example_decoded \<and>
   length (Buffer_toString_hex example_decoded) = 128 \<and>
   even (be_nat (drop 32 example_decoded)) \<and>
   najToPubKey example_naj_key \<lparr>compress = True\<rparr> =
     Inr ''02a8bb8176747682aab5c681d4ef375ca537023b2b287d8b5f9d89505277a5a291''"
proof -
  have len: "length (Buffer_toString_hex example_decoded) = 128"
    by (simp add: example_decoded_hex)
  have x: "Buffer_toString_hex (take 32 example_decoded) =
           ''a8bb8176747682aab5c681d4ef375ca537023b2b287d8b5f9d89505277a5a291''"
    using take_toString [of 32 example_decoded] by (simp add: example_decoded_hex)
  have "last (drop 32 example_decoded) = 0"
    by (simp add: example_decoded_def unhex_def)
  moreover have "drop 32 example_decoded \<noteq> []"
    using len by (simp add: length_Buffer_toString_hex)
  ultimately have ev: "even (be_nat (drop 32 example_decoded))"
    by (simp add: even_be_nat)
  from najToPubKey_compressed [OF example_decode len] ev x
  have "najToPubKey example_naj_key \<lparr>compress = True\<rparr> =
     Inr ''02a8bb8176747682aab5c681d4ef375ca537023b2b287d8b5f9d89505277a5a291''"
    by simp
  with example_decode len ev show ?thesis by blast
qed

text \<open>
  Claim C10. With \<open>compress: false\<close>, \<open>najToPubKey\<close> returns \<open>04\<close> followed by the
  hexadecimal text of whatever the key decodes to, of any length; it fails only when the
  decoding fails, and never with the length error. The length check is reached with
  \<open>compress: true\<close> only, where it rejects exactly the keys that decode to other than
  64 bytes.
\<close>

theorem najToPubKey_uncompressed_unchecked:
  "(base_decode (array_at (split_on CHR '':'' najPubKey) 1) = Inr decoded \<longrightarrow>
      najToPubKey najPubKey \<lparr>compress = False\<rparr> = Inr (''04'' @ Buffer_toString_hex decoded)) \<and>
   (\<forall>e. najToPubKey najPubKey \<lparr>compress = False\<rparr> = Inl e \<longrightarrow>
      base_decode (array_at (split_on CHR '':'' najPubKey) 1) = Inl e) \<and>
   najToPubKey najPubKey \<lparr>compress = False\<rparr> \<noteq>
      Inl (Error ''Invalid uncompressed public key length'') \<and>
   (najToPubKey najPubKey \<lparr>compress = True\<rparr> =
      Inl (Error ''Invalid uncompressed public key length'') \<longleftrightarrow>
    (\<exists>bs. base_decode (array_at (split_on CHR '':'' najPubKey) 1) = Inr bs \<and>
          length bs \<noteq> 64))"
proof -
  have ne: "base_decode src \<noteq> Inl (Error ''Invalid uncompressed public key length'')" for src
    by (simp add: base_decode_def split: option.splits)
  show ?thesis
  proof (cases "base_decode (array_at (split_on CHR '':'' najPubKey) 1)")
    case (Inl e)
    with ne [of "array_at (split_on CHR '':'' najPubKey) 1"] show ?thesis
      by (simp add: najToPubKey_def)
  next
    case (Inr bs)
    then show ?thesis
      by (simp add: najToPubKey_def Let_def startsWith_def length_Buffer_toString_hex)
  qed
qed

theorem najToPubKey_uncompressed_unchecked_witness:
  "base_decode (array_at (split_on CHR '':'' ''secp256k1:2g'') 1) = Inr [0x61] \<and>
   najToPubKey ''secp256k1:2g'' \<lparr>compress = False\<rparr> = Inr ''0461'' \<and>
   najToPubKey ''secp256k1:2g'' \<lparr>compress = True\<rparr> =
     Inl (Error ''Invalid uncompressed public key length'')"
proof -
  have dec: "base_decode (array_at (split_on CHR '':'' ''secp256k1:2g'') 1) = Inr [0x61]"
    by code_simp
  have h: "Buffer_toString_hex [0x61] = ''61''"
    by code_simp
  from najToPubKey_uncompressed_unchecked [of "''secp256k1:2g''" "[0x61]"] dec h
  show ?thesis by auto
qed

section \<open>Bitcoin signature encoding (\<open>parseRSVSignature\<close>)\<close>

text \<open>
  On every input \<open>parseRSVSignature\<close> returns a buffer of exactly 64 bytes or fails
  with \<open>Invalid signature length.\<close>; it never returns a shorter or longer buffer.
  When \<open>r\<close> and \<open>s\<close> are strings of at most 64 hexadecimal digits, the buffer is \<open>r\<close>
  in 32 bytes followed by \<open>s\<close> in 32 bytes, each the big-endian encoding of the number
  the digits denote, that is, left-padded with zeros.
\<close>

theorem parseRSVSignature_64_bytes_or_error:
  "(parseRSVSignature sg = Inl (Error ''Invalid signature length.'') \<or>
    (\<exists>buf. parseRSVSignature sg = Inr buf \<and> length buf = 64)) \<and>
   (hex_string (rsv_r sg) \<and> length (rsv_r sg) \<le> 64 \<and>
    hex_string (rsv_s sg) \<and> length (rsv_s sg) \<le> 64 \<longrightarrow>
      (\<exists>rb sb. parseRSVSignature sg = Inr (rb @ sb) \<and>
         length rb = 32 \<and> be_nat rb = hex_nat (rsv_r sg) \<and>
         length sb = 32 \<and> be_nat sb = hex_nat (rsv_s sg)))"
proof
  show "parseRSVSignature sg = Inl (Error ''Invalid signature length.'') \<or>
    (\<exists>buf. parseRSVSignature sg = Inr buf \<and> length buf = 64)"
    by (simp add: parseRSVSignature_def Let_def)
next
  show "hex_string (rsv_r sg) \<and> length (rsv_r sg) \<le> 64 \<and>
    hex_string (rsv_s sg) \<and> length (rsv_s sg) \<le> 64 \<longrightarrow>
      (\<exists>rb sb. parseRSVSignature sg = Inr (rb @ sb) \<and>
         length rb = 32 \<and> be_nat rb = hex_nat (rsv_r sg) \<and>
         length sb = 32 \<and> be_nat sb = hex_nat (rsv_s sg))"
  proof
    assume a: "hex_string (rsv_r sg) \<and> length (rsv_r sg) \<le> 64 \<and>
      hex_string (rsv_s sg) \<and> length (rsv_s sg) \<le> 64"
    let ?r = "padStart 64 CHR ''0'' (rsv_r sg)"
    let ?s = "padStart 64 CHR ''0'' (rsv_s sg)"
    have hr: "hex_string ?r" and hs: "hex_string ?s"
      using a by (simp_all add: hex_string_padStart)
    have lr: "length ?r = 64" and ls: "length ?s = 64"
      using a by (simp_all add: length_padStart)
    have split: "Buffer_from_hex (?r @ ?s) = Buffer_from_hex ?r @ Buffer_from_hex ?s"
      using hr lr by (simp add: Buffer_from_hex_append)
    have br: "length (Buffer_from_hex ?r) = 32" and bs: "length (Buffer_from_hex ?s) = 32"
      using hr hs lr ls by (simp_all add: length_Buffer_from_hex)
    have nr: "be_nat (Buffer_from_hex ?r) = hex_nat (rsv_r sg)"
      using hr lr by (simp add: be_nat_from_hex) (simp add: padStart_def hex_nat_zeros)
    have ns: "be_nat (Buffer_from_hex ?s) = hex_nat (rsv_s sg)"
      using hs ls by (simp add: be_nat_from_hex) (simp add: padStart_def hex_nat_zeros)
    have "parseRSVSignature sg = Inr (Buffer_from_hex ?r @ Buffer_from_hex ?s)"
      by (simp add: parseRSVSignature_def Let_def split br bs)
    with br bs nr ns show "\<exists>rb sb. parseRSVSignature sg = Inr (rb @ sb) \<and>
         length rb = 32 \<and> be_nat rb = hex_nat (rsv_r sg) \<and>
         length sb = 32 \<and> be_nat sb = hex_nat (rsv_s sg)"
      by blast
  qed
qed

theorem parseRSVSignature_64_bytes_or_error_witness:
  "hex_string ''abc'' \<and> length ''abc'' \<le> 64 \<and>
   hex_string (replicate 64 CHR ''2'') \<and> length (replicate 64 CHR ''2'') \<le> 64 \<and>
   parseRSVSignature \<lparr> rsv_r = ''abc'', rsv_s = replicate 64 CHR ''2'', rsv_v = 0 \<rparr> =
     Inr (replicate 30 0 @ [0x0A, 0xBC] @ replicate 32 0x22) \<and>
   (\<exists>rb sb. parseRSVSignature \<lparr> rsv_r = ''abc'', rsv_s = replicate 64 CHR ''2'', rsv_v = 0 \<rparr> =
        Inr (rb @ sb) \<and> length rb = 32 \<and> be_nat rb = hex_nat ''abc'' \<and> length sb = 32)"
proof -
  let ?sg = "\<lparr> rsv_r = ''abc'', rsv_s = replicate 64 CHR ''2'', rsv_v = 0 \<rparr>"
  have h: "hex_string (rsv_r ?sg) \<and> length (rsv_r ?sg) \<le> 64 \<and>
           hex_string (rsv_s ?sg) \<and> length (rsv_s ?sg) \<le> 64"
    by (simp add: hex_string_def unhex_def list_all_iff)
  have v: "parseRSVSignature ?sg = Inr (replicate 30 0 @ [0x0A, 0xBC] @ replicate 32 0x22)"
    by (simp add: parseRSVSignature_def padStart_def unhex_def replicate_numeral_unfold)
  from parseRSVSignature_64_bytes_or_error [of ?sg] h
  have "\<exists>rb sb. parseRSVSignature ?sg = Inr (rb @ sb) \<and> length rb = 32 \<and>
          be_nat rb = hex_nat (rsv_r ?sg) \<and> length sb = 32 \<and> be_nat sb = hex_nat (rsv_s ?sg)"
    by blast
  then have "\<exists>rb sb. parseRSVSignature ?sg = Inr (rb @ sb) \<and> length rb = 32 \<and>
          be_nat rb = hex_nat ''abc'' \<and> length sb = 32"
    by auto
  with h v show ?thesis by simp
qed

text \<open>
  Claim C2. Every buffer \<open>parseRSVSignature\<close> returns is \<open>r\<close> and \<open>s\<close>, each
  left-padded to 32 bytes, \<open>r\<close> first, and any other signature fails with the length
  error. The code does not do this for an \<open>r\<close> of 65 digits with an \<open>s\<close> of 64: the
  text decoded has 129 digits, \<open>Buffer.from\<close> drops the last one, the length guard sees
  64 bytes and lets them through, and the bytes returned hold the last digit of \<open>r\<close>
  joined to the first of \<open>s\<close>, so that the second half is not \<open>s\<close>. The same guard
  rejects an \<open>r\<close> of 66 digits.
\<close>

theorem parseRSVSignature_odd_length_accepted:
  "parseRSVSignature \<lparr> rsv_r = replicate 65 CHR ''1'', rsv_s = replicate 64 CHR ''2'', rsv_v = 0 \<rparr> =
     Inr (replicate 32 0x11 @ 0x12 # replicate 31 0x22) \<and>
   Buffer_from_hex (padStart 64 CHR ''0'' (replicate 64 CHR ''2'')) = replicate 32 0x22 \<and>
   drop 32 (replicate 32 0x11 @ 0x12 # replicate 31 (0x22 :: byte)) \<noteq> replicate 32 0x22 \<and>
   parseRSVSignature \<lparr> rsv_r = replicate 66 CHR ''1'', rsv_s = replicate 64 CHR ''2'', rsv_v = 0 \<rparr> =
     Inl (Error ''Invalid signature length.'')"
  by (simp add: parseRSVSignature_def padStart_def unhex_def replicate_numeral_unfold)

section \<open>The EVM adapter\<close>

text \<open>
  Claim C4. When the contract returns an uncompressed public key (one that starts with
  \<open>04\<close>), \<open>deriveAddressAndPublicKey\<close> returns as address \<open>0x\<close> and the 40 hexadecimal
  characters of the last 20 bytes of the Keccak-256 hash of the key's bytes without the
  \<open>04\<close> prefix, and returns the key itself as \<open>publicKey\<close>.
\<close>

theorem deriveAddressAndPublicKey_address:
  assumes key: "getDerivedPublicKey env path signerId = Inr (Some uncompressedPubKey)"
    and prefix: "startsWith ''04'' uncompressedPubKey"
    and h32: "length (keccak env (Buffer_from_hex (drop 2 uncompressedPubKey))) = 32"
  shows "deriveAddressAndPublicKey env signerId path =
           Inr \<lparr> address = ''0x'' @ Buffer_toString_hex
                              (drop 12 (keccak env (Buffer_from_hex (drop 2 uncompressedPubKey)))),
                 publicKey = uncompressedPubKey \<rparr> \<and>
         length (''0x'' @ Buffer_toString_hex
                   (drop 12 (keccak env (Buffer_from_hex (drop 2 uncompressedPubKey))))) = 42"
proof -
  from prefix have ne: "uncompressedPubKey \<noteq> []"
    by (auto simp: startsWith_def)
  have "deriveAddressAndPublicKey env signerId path =
           Inr \<lparr> address = ''0x'' @ Buffer_toString_hex
                              (drop 12 (keccak env (Buffer_from_hex (drop 2 uncompressedPubKey)))),
                 publicKey = uncompressedPubKey \<rparr>"
    unfolding deriveAddressAndPublicKey_def key
    by (simp add: ne prefix keccak256_Bytes last_40_of_hash [OF h32] Let_def)
  then show ?thesis
    using h32 by (simp add: length_Buffer_toString_hex)
qed

theorem deriveAddressAndPublicKey_address_witness:
  "getDerivedPublicKey example_evm_env ''path'' ''signer.near'' =
     Inr (Some (''04'' @ Buffer_toString_hex example_decoded)) \<and>
   startsWith ''04'' (''04'' @ Buffer_toString_hex example_decoded) \<and>
   deriveAddressAndPublicKey example_evm_env ''signer.near'' ''path'' =
     Inr \<lparr> address = ''0xf9d87c4c97c6b4fda5623a79fbd8820868f38e53'',
           publicKey = ''04'' @ Buffer_toString_hex example_decoded \<rparr>"
proof -
  let ?key = "''04'' @ Buffer_toString_hex example_decoded"
  have key: "getDerivedPublicKey example_evm_env ''path'' ''signer.near'' = Inr (Some ?key)"
    by (simp add: example_evm_env_def)
  have prefix: "startsWith ''04'' ?key"
    by (simp add: startsWith_def)
  have h32: "length (keccak example_evm_env (Buffer_from_hex (drop 2 ?key))) = 32"
    by (simp add: example_evm_env_def example_hash_def)
  have "Buffer_toString_hex (drop 12 (example_hash example_decoded)) =
        ''f9d87c4c97c6b4fda5623a79fbd8820868f38e53''"
    by code_simp
  then have a: "Buffer_toString_hex
          (drop 12 (keccak example_evm_env (Buffer_from_hex (drop 2 ?key)))) =
        ''f9d87c4c97c6b4fda5623a79fbd8820868f38e53''"
    by (simp add: example_evm_env_def Buffer_from_hex_toString)
  from deriveAddressAndPublicKey_address [OF key prefix h32] a
  have "deriveAddressAndPublicKey example_evm_env ''signer.near'' ''path'' =
     Inr \<lparr> address = ''0xf9d87c4c97c6b4fda5623a79fbd8820868f38e53'',
           publicKey = ''04'' @ Buffer_toString_hex example_decoded \<rparr>"
    by simp
  with key prefix show ?thesis by blast
qed

text \<open>
  Claim C3. When the fee estimate, the nonce and the serialization succeed,
  \<open>getMPCPayloadAndTransaction\<close> returns the transaction with the fee fields, chain id,
  nonce and type 2 attached (a field the request itself gives wins over an attached one,
  and \<open>from\<close> is removed) and exactly one payload: its index is 0 and its bytes are the
  Keccak-256 hash of the bytes of the unsigned serialization of that transaction. And
  whatever it returns has this form: one payload, of index 0, the hash of the unsigned
  serialization of the transaction returned with it.
\<close>

theorem getMPCPayloadAndTransaction_single_payload:
  "(\<forall>fees nonce txSerialized preimage.
      fetchEVMFeeProperties env (provider_url env) request = Inr fees \<and>
      getTransactionCount env (request ''from'') ''latest'' = Inr nonce \<and>
      Transaction_unsignedSerialized env
        (fees ++ [''chainId'' \<mapsto> JBigInt (network_chainId env),
                  ''nonce'' \<mapsto> JNumber nonce,
                  ''type'' \<mapsto> JNumber 2]
              ++ request(''from'' := None)) = Inr txSerialized \<and>
      getBytes (HexString txSerialized) = Inr preimage \<longrightarrow>
      getMPCPayloadAndTransaction env request =
        Inr \<lparr> transaction =
                fees ++ [''chainId'' \<mapsto> JBigInt (network_chainId env),
                         ''nonce'' \<mapsto> JNumber nonce,
                         ''type'' \<mapsto> JNumber 2]
                     ++ request(''from'' := None),
              mpcPayloads = [\<lparr> index = 0, payload = keccak env preimage \<rparr>] \<rparr>) \<and>
   (\<forall>res. getMPCPayloadAndTransaction env request = Inr res \<longrightarrow>
      (\<exists>ser pre. attachGasAndNonce env request = Inr (transaction res) \<and>
         Transaction_unsignedSerialized env (transaction res) = Inr ser \<and>
         getBytes (HexString ser) = Inr pre \<and>
         mpcPayloads res = [\<lparr> index = 0, payload = keccak env pre \<rparr>]))"
  using getMPCPayloadAndTransaction_returns [of env request]
    getMPCPayloadAndTransaction_shape [of env request]
  by blast

theorem getMPCPayloadAndTransaction_single_payload_witness:
  "fetchEVMFeeProperties example_evm_env (provider_url example_evm_env) example_request =
     Inr example_fees \<and>
   getTransactionCount example_evm_env (example_request ''from'') ''latest'' = Inr 7 \<and>
   getBytes (HexString ''0x02c0'') = Inr [0x02, 0xC0] \<and>
   getMPCPayloadAndTransaction example_evm_env example_request =
     Inr \<lparr> transaction =
             example_fees ++ [''chainId'' \<mapsto> JBigInt 1, ''nonce'' \<mapsto> JNumber 7,
                              ''type'' \<mapsto> JNumber 2]
                          ++ example_request(''from'' := None),
           mpcPayloads = [\<lparr> index = 0, payload = example_hash [0x02, 0xC0] \<rparr>] \<rparr>"
proof -
  have fees: "fetchEVMFeeProperties example_evm_env (provider_url example_evm_env)
                example_request = Inr example_fees"
    by (simp add: example_evm_env_def)
  have nonce: "getTransactionCount example_evm_env (example_request ''from'') ''latest'' = Inr 7"
    by (simp add: example_evm_env_def)
  have ser: "Transaction_unsignedSerialized example_evm_env
                (example_fees ++ [''chainId'' \<mapsto> JBigInt (network_chainId example_evm_env),
                          ''nonce'' \<mapsto> JNumber 7,
                          ''type'' \<mapsto> JNumber 2]
                      ++ example_request(''from'' := None)) = Inr ''0x02c0''"
    by (simp add: example_evm_env_def)
  have pre: "getBytes (HexString ''0x02c0'') = Inr [0x02, 0xC0]"
    by (simp add: getBytes_def startsWith_def hex_string_def unhex_def)
  have "getMPCPayloadAndTransaction example_evm_env example_request =
     Inr \<lparr> transaction =
             example_fees ++ [''chainId'' \<mapsto> JBigInt 1, ''nonce'' \<mapsto> JNumber 7,
                              ''type'' \<mapsto> JNumber 2]
                          ++ example_request(''from'' := None),
           mpcPayloads = [\<lparr> index = 0, payload = example_hash [0x02, 0xC0] \<rparr>] \<rparr>"
    using getMPCPayloadAndTransaction_single_payload [of example_evm_env example_request]
      fees nonce ser pre
    by (simp add: example_evm_env_def del: map_add_upd)
  with fees nonce pre show ?thesis by blast
qed

text \<open>
  Claim C9. \<open>addSignature\<close> gives the same result on any two non-empty signature lists
  with the same first element: the signatures at index 1 and higher are ignored.
\<close>

theorem addSignature_first_signature_only:
  assumes "mpcSignatures \<noteq> []" and "others \<noteq> []" and "hd mpcSignatures = hd others"
  shows "addSignature env tx mpcSignatures = addSignature env tx others"
  using assms by (cases mpcSignatures; cases others) (simp_all add: addSignature_def array_at_def)

theorem addSignature_first_signature_only_witness:
  "[example_signature, other_signature] \<noteq> [] \<and> [example_signature] \<noteq> [] \<and>
   hd [example_signature, other_signature] = hd [example_signature] \<and>
   addSignature example_evm_env example_request [example_signature, other_signature] =
   addSignature example_evm_env example_request [example_signature] \<and>
   addSignature example_evm_env example_request [example_signature] =
     Inr ''0x02a8bb8176747682aab5c681d4ef375ca537023b2b287d8b5f9d89505277a5a2911111111111111111111111111111111111111111111111111111111111111111''"
proof -
  have "addSignature example_evm_env example_request [example_signature, other_signature] =
        addSignature example_evm_env example_request [example_signature]"
    by (rule addSignature_first_signature_only) simp_all
  moreover have "addSignature example_evm_env example_request [example_signature] =
     Inr ''0x02a8bb8176747682aab5c681d4ef375ca537023b2b287d8b5f9d89505277a5a2911111111111111111111111111111111111111111111111111111111111111111''"
    by (simp add: addSignature_def array_at_def parseSignature_def example_evm_env_def
        example_signature_def)
  ultimately show ?thesis by simp
qed

section \<open>Root keys of the wrong length\<close>

text \<open>
  Claim C7, as amended. A key of the wrong byte length is rejected in one place only:
  \<open>najToPubKey\<close> with \<open>compress: true\<close> fails with \<open>Invalid uncompressed public key
  length\<close> when the key does not decode to 64 bytes, and with \<open>compress: false\<close> returns
  the same key as text. \<open>deriveAddressAndPublicKey\<close> checks no length: it fails with
  \<open>Failed to get derived public key\<close> when the contract returns no key or an empty one,
  and returns an address, with the key unchanged, for every other key.
\<close>

theorem malformed_root_key_handling:
  "(base_decode (array_at (split_on CHR '':'' najPubKey) 1) = Inr decoded \<and>
    length decoded \<noteq> 64 \<longrightarrow>
      najToPubKey najPubKey \<lparr>compress = True\<rparr> =
        Inl (Error ''Invalid uncompressed public key length'') \<and>
      najToPubKey najPubKey \<lparr>compress = False\<rparr> = Inr (''04'' @ Buffer_toString_hex decoded)) \<and>
   (getDerivedPublicKey env path signerId = Inr (Some key) \<and> key \<noteq> [] \<longrightarrow>
      (\<exists>a. deriveAddressAndPublicKey env signerId path =
             Inr \<lparr> address = a, publicKey = key \<rparr>)) \<and>
   (getDerivedPublicKey env path signerId = Inr None \<or>
    getDerivedPublicKey env path signerId = Inr (Some []) \<longrightarrow>
      deriveAddressAndPublicKey env signerId path =
        Inl (Error ''Failed to get derived public key''))"
  by (auto simp: najToPubKey_def Let_def startsWith_def length_Buffer_toString_hex
      deriveAddressAndPublicKey_def keccak256_Bytes)

theorem malformed_root_key_handling_witness:
  "base_decode (array_at (split_on CHR '':'' ''secp256k1:2g'') 1) = Inr [0x61] \<and>
   length [0x61 :: byte] \<noteq> 64 \<and>
   najToPubKey ''secp256k1:2g'' \<lparr>compress = True\<rparr> =
     Inl (Error ''Invalid uncompressed public key length'') \<and>
   getDerivedPublicKey example_evm_env ''path'' ''signer.near'' =
     Inr (Some (''04'' @ Buffer_toString_hex example_decoded)) \<and>
   (\<exists>a. deriveAddressAndPublicKey example_evm_env ''signer.near'' ''path'' =
          Inr \<lparr> address = a, publicKey = ''04'' @ Buffer_toString_hex example_decoded \<rparr>)"
proof -
  have dec: "base_decode (array_at (split_on CHR '':'' ''secp256k1:2g'') 1) = Inr [0x61]"
    by (simp add: array_at_def base_decode_def base58_alphabet_def bytes_be.simps)
  have key: "getDerivedPublicKey example_evm_env ''path'' ''signer.near'' =
     Inr (Some (''04'' @ Buffer_toString_hex example_decoded))"
    by (simp add: example_evm_env_def)
  from malformed_root_key_handling
         [of "''secp256k1:2g''" "[0x61]" example_evm_env "''path''" "''signer.near''"
             "''04'' @ Buffer_toString_hex example_decoded"]
       dec key
  show ?thesis by simp
qed

text \<open>
  Claim C7 as stated has every root key of the wrong byte length rejected. A key that
  decodes to one byte is returned by \<open>najToPubKey\<close> with \<open>compress: false\<close>, and a
  derived key of one byte after its prefix gets an address.
\<close>

theorem malformed_root_key_counterexample:
  "base_decode (array_at (split_on CHR '':'' ''secp256k1:2g'') 1) = Inr [0x61] \<and>
   length [0x61 :: byte] \<noteq> 64 \<and>
   najToPubKey ''secp256k1:2g'' \<lparr>compress = False\<rparr> = Inr ''0461'' \<and>
   deriveAddressAndPublicKey
     (example_evm_env \<lparr> getDerivedPublicKey := (\<lambda>path predecessor. Inr (Some ''0461'')) \<rparr>)
     ''signer.near'' ''path'' =
     Inr \<lparr> address = ''0x0000000000000000000000000000000000000000'', publicKey = ''0461'' \<rparr>"
proof -
  have dec: "base_decode (array_at (split_on CHR '':'' ''secp256k1:2g'') 1) = Inr [0x61]"
    by (simp add: array_at_def base_decode_def base58_alphabet_def bytes_be.simps)
  have naj: "najToPubKey ''secp256k1:2g'' \<lparr>compress = False\<rparr> = Inr ''0461''"
    unfolding najToPubKey_def dec
    by (simp add: Buffer_toString_hex_def byte_hex_def hex_digit_def)
  have h: "hexlify (example_hash [0x61]) =
           ''0x6100000000000000000000000000000000000000000000000000000000000000''"
    by code_simp
  have "deriveAddressAndPublicKey
     (example_evm_env \<lparr> getDerivedPublicKey := (\<lambda>path predecessor. Inr (Some ''0461'')) \<rparr>)
     ''signer.near'' ''path'' =
     Inr \<lparr> address = ''0x0000000000000000000000000000000000000000'', publicKey = ''0461'' \<rparr>"
    by (simp add: deriveAddressAndPublicKey_def example_evm_env_def startsWith_def
        keccak256_Bytes unhex_def h)
  with dec naj show ?thesis by simp
qed

section \<open>Sequential signing of Bitcoin inputs\<close>

text \<open>
  Claim C1. In every run of \<open>handleTransaction\<close> the signing requests go to the signer
  one at a time and in increasing index order: the events are request 0, completion 0,
  request 1, completion 1, ...; so a request for input \<open>i + 1\<close> is issued only after the
  request for input \<open>i\<close> has completed, the indices requested are \<open>0, ..., m - 1\<close> for
  some \<open>m\<close>, at most the number of inputs, and in a run that returns a transaction id
  all inputs have been requested and completed.
\<close>

theorem handleTransaction_signs_sequentially:
  "well_sequenced 0 (signing_events env data nearAuthentication path) \<and>
   (\<forall>p i h. p < length (signing_events env data nearAuthentication path) \<and>
       signing_events env data nearAuthentication path ! p = SignRequested (Suc i) h \<longrightarrow>
       (\<exists>q s. q < p \<and>
          signing_events env data nearAuthentication path ! q = SignCompleted i s)) \<and>
   (\<exists>m. requested (signing_events env data nearAuthentication path) = [0..<m]) \<and>
   (\<forall>ins outs. inputs data = Some ins \<and> outputs data = Some outs \<longrightarrow>
       (\<exists>m\<le>length ins. requested (signing_events env data nearAuthentication path) = [0..<m]) \<and>
       (\<forall>t. fst (handleTransaction env data nearAuthentication path) = Inr t \<longrightarrow>
          requested (signing_events env data nearAuthentication path) = [0..<length ins] \<and>
          completed (signing_events env data nearAuthentication path) = [0..<length ins]))"
proof -
  obtain r tr where run: "handleTransaction env data nearAuthentication path = (r, tr)"
    by (cases "handleTransaction env data nearAuthentication path")
  then have ev: "signing_events env data nearAuthentication path = tr"
    by (simp add: signing_events_def)
  have ws: "well_sequenced 0 tr"
    using handleTransaction_trace [OF run] sign_inputs_trace by fastforce
  have order: "\<forall>p i h. p < length tr \<and> tr ! p = SignRequested (Suc i) h \<longrightarrow>
       (\<exists>q s. q < p \<and> tr ! q = SignCompleted i s)"
    using well_sequenced_order [OF ws] by blast
  have req: "\<exists>m. requested tr = [0..<m]"
    using well_sequenced_requested [OF ws] by simp
  have given: "(\<exists>m\<le>length ins. requested tr = [0..<m]) \<and>
       (\<forall>t. r = Inr t \<longrightarrow> requested tr = [0..<length ins] \<and> completed tr = [0..<length ins])"
    if a: "inputs data = Some ins" "outputs data = Some outs" for ins outs
  proof -
    from handleTransaction_trace [OF run] show ?thesis
    proof (elim disjE exE conjE)
      assume "tr = []" and "\<forall>t. r \<noteq> Inr t"
      moreover have "requested [] = [0..<0]" by simp
      ultimately show ?thesis by blast
    next
      fix addr pubKey ins' outs' psbt2 r'
      assume res: "resolve_inputs_outputs env data addr = Inr (ins', outs')"
        and loop: "sign_inputs env pubKey (length ins') 0 psbt2 [] = (r', tr)"
        and succ: "(\<exists>t. r = Inr t) \<longrightarrow> (\<exists>p. r' = Inr p)"
      from res resolve_given [OF a, of env addr] have same: "ins' = ins" by simp
      from sign_inputs_trace [OF loop]
      have b: "\<forall>x \<in> set (requested tr). x < length ins"
        and s: "\<forall>p. r' = Inr p \<longrightarrow>
                  requested tr = [0..<length ins] \<and> completed tr = [0..<length ins]"
        unfolding same by auto
      from req obtain m where m: "requested tr = [0..<m]" by blast
      with b have "m \<le> length ins" by (simp add: upt_bound)
      with m s succ show ?thesis by blast
    qed
  qed
  from ws order req given show ?thesis
    unfolding ev using run by simp
qed

theorem handleTransaction_signs_sequentially_witness:
  "inputs example_btc_transaction =
     Some [\<lparr> txid = ''aa'', vout = 0, utxo_value = 6000 \<rparr>,
           \<lparr> txid = ''bb'', vout = 0, utxo_value = 5000 \<rparr>] \<and>
   fst (handleTransaction example_btc_env example_btc_transaction example_authentication
          ''path'') = Inr ''txid0'' \<and>
   signing_events example_btc_env example_btc_transaction example_authentication ''path'' =
     [SignRequested 0 [0], SignCompleted 0 example_raw_signature,
      SignRequested 1 [1], SignCompleted 1 example_raw_signature] \<and>
   requested (signing_events example_btc_env example_btc_transaction example_authentication
                ''path'') = [0, 1] \<and>
   completed (signing_events example_btc_env example_btc_transaction example_authentication
                ''path'') = [0, 1]"
proof -
  have i: "inputs example_btc_transaction =
     Some [\<lparr> txid = ''aa'', vout = 0, utxo_value = 6000 \<rparr>,
           \<lparr> txid = ''bb'', vout = 0, utxo_value = 5000 \<rparr>]"
    and out: "outputs example_btc_transaction = Some [AddressOutput (Some ''tb1qrecipient'') 10000]"
    by (simp_all add: example_btc_transaction_def)
  have ok: "fst (handleTransaction example_btc_env example_btc_transaction
                   example_authentication ''path'') = Inr ''txid0''"
    by (simp add: example_run)
  have ev: "signing_events example_btc_env example_btc_transaction example_authentication
              ''path'' =
     [SignRequested 0 [0], SignCompleted 0 example_raw_signature,
      SignRequested 1 [1], SignCompleted 1 example_raw_signature]"
    by (simp add: signing_events_def example_run)
  from handleTransaction_signs_sequentially
         [of example_btc_env example_btc_transaction example_authentication "''path''"]
       i out ok
  have "requested (signing_events example_btc_env example_btc_transaction
                     example_authentication ''path'') = [0, 1] \<and>
        completed (signing_events example_btc_env example_btc_transaction
                     example_authentication ''path'') = [0, 1]"
    by simp
  with i ok ev show ?thesis by blast
qed

section \<open>Signatures and payload indices\<close>




end
